theory Spec2Isabelle
  imports Main "HOL-Library.Word"
begin

section \<open>The flow scheduler of ksched: data model\<close>

text \<open>
  The development embeds \<^verbatim>\<open>scheduling/flow/flowscheduler/scheduler.go\<close> and the
  registry lookups of package \<^verbatim>\<open>types\<close>. Identifiers are \<^verbatim>\<open>uint64\<close> in the source
  (\<^verbatim>\<open>TaskID\<close>, \<^verbatim>\<open>ResourceID\<close>, \<^verbatim>\<open>JobID\<close>); the node identifiers of the flow graph, whose
  declaration is in a package that is not at hand, are taken to be of the same width.
\<close>

type_synonym TaskID = "64 word"
type_synonym ResourceID = "64 word"
type_synonym JobID = "64 word"
type_synonym NodeID = "64 word"

text \<open>
  Go pointers. Every registry stores pointers, and the scheduler mutates the objects
  behind them in place, so objects live in a store indexed by addresses and a pointer
  is either nil or an address. Go is garbage collected: a pointer that is not nil always
  points to an object, hence the stores below are total functions.
\<close>

type_synonym addr = nat

datatype ptr = NilPtr | Ptr addr

text \<open>
  Modelled from the spec: the descriptors are protocol messages of package \<^verbatim>\<open>proto\<close>,
  whose declarations are not among the sources. A job descriptor carries an identity and
  a state (\<open>Pending\<close>, \<open>Running\<close>, \<open>Completed\<close>, ...); a task descriptor its identity and its
  owning job; a resource descriptor a type (machine, processing unit \<open>PU\<close>, ...) and a
  schedulable flag; a topology node wraps a resource descriptor, child links and a
  parent-id string that is empty for a root; a resource status wraps a resource
  descriptor; a delta is a type, a task and a resource. The fields are named and typed
  as the scheduler uses them (the job of a task and the resource of a delta are strings
  that it parses, the descriptor of a node is a pointer it writes through). An
  enumeration of the protocol is an \<^verbatim>\<open>int32\<close> in Go, so each one has a last constructor
  for the values that carry no name.
\<close>

datatype JobState = Pending | Running | Completed | OtherJobState nat

datatype ResourceType = ResourcePu | ResourceMachine | OtherResourceType nat

datatype ChangeType = PLACE | PREEMPT | MIGRATE | NOOP | UnknownChangeType nat

record JobDescriptor =
  Uuid :: string
  State :: JobState

record TaskDescriptor =
  Uid :: TaskID
  JobID :: string

record ResourceDescriptor =
  ResType :: ResourceType
  Schedulable :: bool

record ResourceTopologyNodeDescriptor =
  ResourceDesc :: ptr
  Children :: "ptr list"
  ParentId :: string

record ResourceStatus =
  Descriptor :: ptr

record SchedulingDelta =
  Type :: ChangeType
  TaskId :: "64 word"
  ResourceId :: string

text \<open>
  The Graph Manager is an interface whose implementation is not among the sources. The
  notifications the scheduler sends to it are recorded, in order, in a log; the two
  queries it answers are parameters (see \<open>collaborators\<close> below).
\<close>

datatype gm_call =
  JobCompleted JobID
| AddResourceTopology ptr
| UpdateResourceTopology addr

text \<open>
  The \<^verbatim>\<open>scheduler\<close> struct, followed by the stores of the objects its pointers lead to.
  \<open>resourceRoots\<close> is a Go map used as a set of node pointers; it is a list without
  repetitions here, whose order stands for the order in which \<^verbatim>\<open>range\<close> visits it.
\<close>

record scheduler =
  resourceMap :: "ResourceID \<rightharpoonup> ptr"
  jobMap :: "JobID \<rightharpoonup> ptr"
  taskMap :: "TaskID \<rightharpoonup> ptr"
  resourceTopology :: ptr
  gm :: "gm_call list"
  resourceRoots :: "addr list"
  taskBindings :: "TaskID \<rightharpoonup> ResourceID"
  jobsToSchedule :: "JobID \<rightharpoonup> ptr"
  runnableTasks :: "JobID \<rightharpoonup> TaskID set"
  jobs :: "addr \<Rightarrow> JobDescriptor"
  tasks :: "addr \<Rightarrow> TaskDescriptor"
  statuses :: "addr \<Rightarrow> ResourceStatus"
  nodes :: "addr \<Rightarrow> ResourceTopologyNodeDescriptor"
  descs :: "addr \<Rightarrow> ResourceDescriptor"

text \<open>
  A call either returns a value or halts the process; both leave a state behind.
  \<open>ExplicitPanic\<close> is \<^verbatim>\<open>panic("")\<close>, \<open>LogPanicf\<close> is \<^verbatim>\<open>log.Panicf\<close>, \<open>LogFatalf\<close> is
  \<^verbatim>\<open>log.Fatalf\<close>, \<open>NilDereference\<close> is the run-time panic of reading or writing through a
  nil pointer, and \<open>MustIDPanic\<close> is the panic of a \<^verbatim>\<open>Must...IDFromString\<close> helper.
\<close>

datatype fault = ExplicitPanic | LogPanicf | LogFatalf | NilDereference | MustIDPanic

datatype 'a outcome = Returned 'a scheduler | Halted fault scheduler

fun state_of :: "'a outcome \<Rightarrow> scheduler" where
  "state_of (Returned x s) = s"
| "state_of (Halted f s) = s"

fun value_of :: "'a outcome \<Rightarrow> 'a option" where
  "value_of (Returned x s) = Some x"
| "value_of (Halted f s) = None"

fun fault_of :: "'a outcome \<Rightarrow> fault option" where
  "fault_of (Returned x s) = None"
| "fault_of (Halted f s) = Some f"

text \<open>
  What the scheduler consumes from outside: the Solver's answer (the entries of the
  returned map, in the order \<^verbatim>\<open>range\<close> visits them), the two queries of the Graph
  Manager, and the two identifier parsers of package \<^verbatim>\<open>util\<close>, which panic on a string
  they cannot read (\<open>None\<close>).
\<close>

record collaborators =
  Solve :: "(NodeID \<times> NodeID) list"
  SchedulingDeltasForPreemptedTasks ::
    "(NodeID \<times> NodeID) list \<Rightarrow> (ResourceID \<rightharpoonup> ptr) \<Rightarrow> SchedulingDelta list"
  NodeBindingToSchedulingDelta ::
    "NodeID \<Rightarrow> NodeID \<Rightarrow> (TaskID \<rightharpoonup> ResourceID) \<Rightarrow> SchedulingDelta"
  MustJobIDFromString :: "string \<Rightarrow> JobID option"
  MustResourceIDFromString :: "string \<Rightarrow> ResourceID option"

section \<open>Registry lookups\<close>

text \<open>
  \<^verbatim>\<open>FindPtrOrNull\<close> is the same function for the three registries: the value stored
  under the key, nil when the key is missing. It does not tell a missing key from a key
  bound to nil. The locks are taken and released inside each call and hold no state
  across calls.
\<close>

definition FindPtrOrNull :: "(64 word \<rightharpoonup> ptr) \<Rightarrow> 64 word \<Rightarrow> ptr" where
  "FindPtrOrNull M k = (case M k of None \<Rightarrow> NilPtr | Some v \<Rightarrow> v)"

definition ContainsKey :: "(64 word \<rightharpoonup> ptr) \<Rightarrow> 64 word \<Rightarrow> bool" where
  "ContainsKey M k = (case M k of None \<Rightarrow> False | Some v \<Rightarrow> True)"

text \<open>A registry has a record for a key when the lookup yields a descriptor.\<close>

definition has_record :: "(64 word \<rightharpoonup> ptr) \<Rightarrow> 64 word \<Rightarrow> bool" where
  "has_record M k = (case FindPtrOrNull M k of NilPtr \<Rightarrow> False | Ptr a \<Rightarrow> True)"

section \<open>Job and resource lifecycle\<close>

definition AddJob :: "collaborators \<Rightarrow> ptr \<Rightarrow> scheduler \<Rightarrow> unit outcome" where
  "AddJob env jd s =
     (case jd of
        NilPtr \<Rightarrow> Halted NilDereference s
      | Ptr a \<Rightarrow>
          (case MustJobIDFromString env (Uuid (jobs s a)) of
             None \<Rightarrow> Halted MustIDPanic s
           | Some j \<Rightarrow> Returned () (s\<lparr>jobsToSchedule := (jobsToSchedule s)(j \<mapsto> jd)\<rparr>)))"

definition HandleJobCompletion :: "JobID \<Rightarrow> scheduler \<Rightarrow> unit outcome" where
  "HandleJobCompletion jobID s =
     (let s1 = s\<lparr>gm := gm s @ [JobCompleted jobID]\<rparr> in
      case FindPtrOrNull (jobMap s1) jobID of
        NilPtr \<Rightarrow> Halted LogPanicf s1
      | Ptr jd \<Rightarrow>
          Returned ()
            (s1\<lparr>jobsToSchedule := (jobsToSchedule s1)(jobID := None),
                runnableTasks := (runnableTasks s1)(jobID := None),
                jobs := (jobs s1)(jd := (jobs s1 jd)\<lparr>State := Completed\<rparr>)\<rparr>))"

text \<open>
  The loop of \<^verbatim>\<open>RegisterResource\<close> over the queue \<open>toVisit\<close>. The queue is of package
  \<^verbatim>\<open>queue\<close>, not among the sources: a FIFO, a list with \<^verbatim>\<open>Push\<close> at the back and \<^verbatim>\<open>Pop\<close> at
  the front. The body pops a node, reads its resource descriptor and marks it when it is
  a PU. It pushes nothing, so the queue only shrinks.
\<close>

fun RegisterResource_loop :: "ptr list \<Rightarrow> scheduler \<Rightarrow> unit outcome" where
  "RegisterResource_loop [] s = Returned () s"
| "RegisterResource_loop (p # toVisit) s =
     (case p of
        NilPtr \<Rightarrow> Halted NilDereference s
      | Ptr n \<Rightarrow>
          (case ResourceDesc (nodes s n) of
             NilPtr \<Rightarrow> Halted NilDereference s
           | Ptr currRD \<Rightarrow>
               RegisterResource_loop toVisit
                 (if ResType (descs s currRD) = ResourcePu
                  then s\<lparr>descs := (descs s)(currRD := (descs s currRD)\<lparr>Schedulable := True\<rparr>)\<rparr>
                  else s)))"

definition RegisterResource :: "ptr \<Rightarrow> scheduler \<Rightarrow> unit outcome" where
  "RegisterResource rtnd s =
     (case RegisterResource_loop [rtnd] s of
        Halted f s1 \<Rightarrow> Halted f s1
      | Returned u s1 \<Rightarrow>
          (let s2 = s1\<lparr>gm := gm s1 @ [AddResourceTopology rtnd]\<rparr> in
           case rtnd of
             NilPtr \<Rightarrow> Halted NilDereference s2
           | Ptr n \<Rightarrow>
               if ParentId (nodes s2 n) = []
               then Returned () (s2\<lparr>resourceRoots := List.insert n (resourceRoots s2)\<rparr>)
               else Returned () s2))"

section \<open>The scheduling round\<close>

text \<open>
  The three hooks are empty functions in the source: they take the resolved task and
  resource descriptors and change nothing.
\<close>

definition HandleTaskPlacement :: "addr \<Rightarrow> ptr \<Rightarrow> scheduler \<Rightarrow> scheduler" where
  "HandleTaskPlacement td rd s = s"

definition HandleTaskEviction :: "addr \<Rightarrow> ptr \<Rightarrow> scheduler \<Rightarrow> scheduler" where
  "HandleTaskEviction td rd s = s"

definition HandleTaskMigration :: "addr \<Rightarrow> ptr \<Rightarrow> scheduler \<Rightarrow> scheduler" where
  "HandleTaskMigration td rd s = s"

text \<open>
  The body of the loop of \<^verbatim>\<open>ApplySchedulingDeltas\<close> for one delta \<open>d\<close>, with the counter
  \<open>numScheduled\<close> as it stands before the delta. The counter is a Go \<^verbatim>\<open>int\<close>; it is
  incremented at most once per element of a slice, whose length is itself an \<^verbatim>\<open>int\<close>, so
  it never wraps and is an unbounded integer here. \<^verbatim>\<open>log.Println\<close> only writes to the
  log and is left out.
\<close>

definition ApplySchedulingDeltas_body ::
  "collaborators \<Rightarrow> SchedulingDelta \<Rightarrow> int \<Rightarrow> scheduler \<Rightarrow> int outcome" where
  "ApplySchedulingDeltas_body env d numScheduled s =
     (case FindPtrOrNull (taskMap s) (TaskId d) of
        NilPtr \<Rightarrow> Halted ExplicitPanic s
      | Ptr td \<Rightarrow>
          (case MustResourceIDFromString env (ResourceId d) of
             None \<Rightarrow> Halted MustIDPanic s
           | Some resID \<Rightarrow>
               (case FindPtrOrNull (resourceMap s) resID of
                  NilPtr \<Rightarrow> Halted ExplicitPanic s
                | Ptr rs \<Rightarrow>
                    (case Type d of
                       PLACE \<Rightarrow>
                         (case MustJobIDFromString env (JobID (tasks s td)) of
                            None \<Rightarrow> Halted MustIDPanic s
                          | Some j \<Rightarrow>
                              (case FindPtrOrNull (jobMap s) j of
                                 NilPtr \<Rightarrow> Halted NilDereference s
                               | Ptr jd \<Rightarrow>
                                   Returned (numScheduled + 1)
                                     (HandleTaskPlacement td (Descriptor (statuses s rs))
                                        (if State (jobs s jd) \<noteq> Running
                                         then s\<lparr>jobs := (jobs s)(jd := (jobs s jd)\<lparr>State := Running\<rparr>)\<rparr>
                                         else s))))
                     | PREEMPT \<Rightarrow>
                         Returned numScheduled
                           (HandleTaskEviction td (Descriptor (statuses s rs)) s)
                     | MIGRATE \<Rightarrow>
                         Returned numScheduled
                           (HandleTaskMigration td (Descriptor (statuses s rs)) s)
                     | NOOP \<Rightarrow> Returned numScheduled s
                     | UnknownChangeType v \<Rightarrow> Halted LogFatalf s))))"

fun ApplySchedulingDeltas_loop ::
  "collaborators \<Rightarrow> SchedulingDelta list \<Rightarrow> int \<Rightarrow> scheduler \<Rightarrow> int outcome" where
  "ApplySchedulingDeltas_loop env [] numScheduled s = Returned numScheduled s"
| "ApplySchedulingDeltas_loop env (d # ds) numScheduled s =
     (case ApplySchedulingDeltas_body env d numScheduled s of
        Halted f s1 \<Rightarrow> Halted f s1
      | Returned n1 s1 \<Rightarrow> ApplySchedulingDeltas_loop env ds n1 s1)"

definition ApplySchedulingDeltas ::
  "collaborators \<Rightarrow> SchedulingDelta list \<Rightarrow> scheduler \<Rightarrow> int outcome" where
  "ApplySchedulingDeltas env deltas s = ApplySchedulingDeltas_loop env deltas 0 s"

text \<open>
  The loop of \<^verbatim>\<open>RunSchedulingIteration\<close> over the pairs of the Solver's answer: one call
  of the Graph Manager per pair, whose result is appended to \<open>deltas\<close> whatever it is.
\<close>

fun binding_loop ::
  "collaborators \<Rightarrow> (NodeID \<times> NodeID) list \<Rightarrow> (TaskID \<rightharpoonup> ResourceID) \<Rightarrow>
     SchedulingDelta list \<Rightarrow> SchedulingDelta list" where
  "binding_loop env [] tb deltas = deltas"
| "binding_loop env ((taskNodeID, resourceNodeID) # rest) tb deltas =
     binding_loop env rest tb
       (deltas @ [NodeBindingToSchedulingDelta env taskNodeID resourceNodeID tb])"

text \<open>The delta list of a round, as it stands when it is handed to the application.\<close>

definition round_deltas :: "collaborators \<Rightarrow> scheduler \<Rightarrow> SchedulingDelta list" where
  "round_deltas env s =
     (let taskMappings = Solve env;
          deltas = SchedulingDeltasForPreemptedTasks env taskMappings (resourceMap s)
      in binding_loop env taskMappings (taskBindings s) deltas)"

text \<open>
  The two parts the claims tell apart: the preemption deltas the Graph Manager derives
  for the round, and the binding deltas, one per pair of the assignment.
\<close>

definition preempt_deltas :: "collaborators \<Rightarrow> scheduler \<Rightarrow> SchedulingDelta list" where
  "preempt_deltas env s = SchedulingDeltasForPreemptedTasks env (Solve env) (resourceMap s)"

definition binding_deltas :: "collaborators \<Rightarrow> scheduler \<Rightarrow> SchedulingDelta list" where
  "binding_deltas env s =
     map (\<lambda>(t, r). NodeBindingToSchedulingDelta env t r (taskBindings s)) (Solve env)"

text \<open>The last loop: one capacity update per known root.\<close>

fun update_roots :: "addr list \<Rightarrow> scheduler \<Rightarrow> scheduler" where
  "update_roots [] s = s"
| "update_roots (rtnd # rest) s =
     update_roots rest (s\<lparr>gm := gm s @ [UpdateResourceTopology rtnd]\<rparr>)"

definition RunSchedulingIteration ::
  "collaborators \<Rightarrow> scheduler \<Rightarrow> (SchedulingDelta list \<times> int) outcome" where
  "RunSchedulingIteration env s =
     (let deltas = round_deltas env s in
      case ApplySchedulingDeltas env deltas s of
        Halted f s1 \<Rightarrow> Halted f s1
      | Returned numScheduled s1 \<Rightarrow>
          Returned (deltas, numScheduled) (update_roots (resourceRoots s1) s1))"

section \<open>The Graph Manager's binding diff\<close>

text \<open>
  Modelled from the spec: \<^verbatim>\<open>NodeBindingToSchedulingDelta\<close> belongs to the Graph Manager
  (package \<^verbatim>\<open>flowmanager\<close>), which is not among the sources. The spec classifies a
  (task, resource) pair of the assignment by the previous bindings: a task absent from
  them gives \<open>PLACE\<close>, a task bound to a different resource gives \<open>MIGRATE\<close>, and for a
  task bound to the same resource no delta is needed. For that last pair neither the
  spec nor the sources say which value the call hands back, so it is the parameter
  \<open>idle\<close>. The node of a task or resource is identified with the task or resource, as
  the spec does, and \<open>str\<close> renders a resource identifier as the string a delta carries.
\<close>

definition NodeBindingToSchedulingDelta_spec ::
  "(ResourceID \<Rightarrow> string) \<Rightarrow> (NodeID \<Rightarrow> NodeID \<Rightarrow> SchedulingDelta) \<Rightarrow>
     NodeID \<Rightarrow> NodeID \<Rightarrow> (TaskID \<rightharpoonup> ResourceID) \<Rightarrow> SchedulingDelta" where
  "NodeBindingToSchedulingDelta_spec str idle t r tb =
     (case tb t of
        None \<Rightarrow> \<lparr>Type = PLACE, TaskId = t, ResourceId = str r\<rparr>
      | Some bound \<Rightarrow>
          if bound \<noteq> r then \<lparr>Type = MIGRATE, TaskId = t, ResourceId = str r\<rparr>
          else idle t r)"

text \<open>
  A delta names the task \<open>t\<close> and the resource \<open>r\<close> when its task identifier is \<open>t\<close> and
  its resource string is read as \<open>r\<close> by the parser the application uses.
\<close>

definition names_pair :: "collaborators \<Rightarrow> SchedulingDelta \<Rightarrow> TaskID \<Rightarrow> ResourceID \<Rightarrow> bool" where
  "names_pair env d t r =
     (TaskId d = t \<and> MustResourceIDFromString env (ResourceId d) = Some r)"

text \<open>What the claims speak of: the deltas of a list that are placements.\<close>

definition count_PLACE :: "SchedulingDelta list \<Rightarrow> int" where
  "count_PLACE deltas = int (length (filter (\<lambda>d. Type d = PLACE) deltas))"

text \<open>
  A delta is applicable in a state when its task and its resource resolve, its type is
  one of the four instructions and, for a placement, the owning job of the task resolves
  too.
\<close>

definition task_resolves :: "scheduler \<Rightarrow> SchedulingDelta \<Rightarrow> bool" where
  "task_resolves s d = has_record (taskMap s) (TaskId d)"

definition resource_resolves :: "collaborators \<Rightarrow> scheduler \<Rightarrow> SchedulingDelta \<Rightarrow> bool" where
  "resource_resolves env s d =
     (case MustResourceIDFromString env (ResourceId d) of
        None \<Rightarrow> False
      | Some resID \<Rightarrow> has_record (resourceMap s) resID)"

definition type_recognized :: "SchedulingDelta \<Rightarrow> bool" where
  "type_recognized d = (Type d = PLACE \<or> Type d = PREEMPT \<or> Type d = MIGRATE \<or> Type d = NOOP)"

text \<open>The job a delta's task belongs to, when the task resolves and the job is on record.\<close>

definition owning_job :: "collaborators \<Rightarrow> scheduler \<Rightarrow> SchedulingDelta \<Rightarrow> addr option" where
  "owning_job env s d =
     (case FindPtrOrNull (taskMap s) (TaskId d) of
        NilPtr \<Rightarrow> None
      | Ptr td \<Rightarrow>
          (case MustJobIDFromString env (JobID (tasks s td)) of
             None \<Rightarrow> None
           | Some j \<Rightarrow>
               (case FindPtrOrNull (jobMap s) j of NilPtr \<Rightarrow> None | Ptr jd \<Rightarrow> Some jd)))"

text \<open>The owning job's identifier is readable but the registry has no record for it.\<close>

definition owning_job_absent :: "collaborators \<Rightarrow> scheduler \<Rightarrow> SchedulingDelta \<Rightarrow> bool" where
  "owning_job_absent env s d =
     (case FindPtrOrNull (taskMap s) (TaskId d) of
        NilPtr \<Rightarrow> False
      | Ptr td \<Rightarrow>
          (case MustJobIDFromString env (JobID (tasks s td)) of
             None \<Rightarrow> False
           | Some j \<Rightarrow> \<not> has_record (jobMap s) j))"

definition applicable :: "collaborators \<Rightarrow> scheduler \<Rightarrow> SchedulingDelta \<Rightarrow> bool" where
  "applicable env s d =
     (task_resolves s d \<and> resource_resolves env s d \<and> type_recognized d
      \<and> (Type d = PLACE \<longrightarrow> owning_job env s d \<noteq> None))"

section \<open>A small cluster\<close>

text \<open>
  The scenario of the spec: job J1 (identifier 7) with tasks T1 and T2 (1 and 2), machine
  M1 with the processing units P1 and P2 (resource identifiers 11 and 12). Addresses:
  the job descriptor is at 1, the task descriptors at 1 and 2, the resource statuses at
  1 and 2, the topology nodes of M1, P1, P2 at 0, 1, 2 and their resource descriptors at
  the same addresses of their own store.
\<close>

definition parse_id :: "string \<Rightarrow> 64 word option" where
  "parse_id = map_of [(''7'', 7), (''11'', 11), (''12'', 12)]"

definition show_id :: "64 word \<Rightarrow> string" where
  "show_id r = (if r = 11 then ''11'' else if r = 12 then ''12'' else if r = 7 then ''7'' else ''x'')"

definition empty_scheduler :: scheduler where
  "empty_scheduler =
     \<lparr>resourceMap = Map.empty, jobMap = Map.empty, taskMap = Map.empty,
      resourceTopology = NilPtr, gm = [], resourceRoots = [],
      taskBindings = Map.empty, jobsToSchedule = Map.empty, runnableTasks = Map.empty,
      jobs = (\<lambda>a. \<lparr>Uuid = ''7'', State = Pending\<rparr>),
      tasks = (\<lambda>a. \<lparr>Uid = 1, JobID = ''7''\<rparr>)(2 := \<lparr>Uid = 2, JobID = ''7''\<rparr>),
      statuses = (\<lambda>a. \<lparr>Descriptor = Ptr 1\<rparr>)(2 := \<lparr>Descriptor = Ptr 2\<rparr>),
      nodes = (\<lambda>a. \<lparr>ResourceDesc = Ptr 0, Children = [Ptr 1, Ptr 2], ParentId = []\<rparr>)
                (1 := \<lparr>ResourceDesc = Ptr 1, Children = [], ParentId = ''M1''\<rparr>,
                 2 := \<lparr>ResourceDesc = Ptr 2, Children = [], ParentId = ''M1''\<rparr>),
      descs = (\<lambda>a. \<lparr>ResType = ResourceMachine, Schedulable = False\<rparr>)
                (1 := \<lparr>ResType = ResourcePu, Schedulable = False\<rparr>,
                 2 := \<lparr>ResType = ResourcePu, Schedulable = False\<rparr>)\<rparr>"

text \<open>The cluster once J1, T1, T2, P1 and P2 are in the registries.\<close>

definition cluster :: scheduler where
  "cluster =
     empty_scheduler
       \<lparr>resourceMap := [11 \<mapsto> Ptr 1, 12 \<mapsto> Ptr 2],
        jobMap := [7 \<mapsto> Ptr 1],
        taskMap := [1 \<mapsto> Ptr 1, 2 \<mapsto> Ptr 2]\<rparr>"

text \<open>
  Two Graph Managers for the scenarios, which differ in what they hand back for a pair
  that needs no delta: a \<open>NOOP\<close> for the pair, or a delta with no task and no resource.
\<close>

definition noop_answer :: "NodeID \<Rightarrow> NodeID \<Rightarrow> SchedulingDelta" where
  "noop_answer t r = \<lparr>Type = NOOP, TaskId = t, ResourceId = show_id r\<rparr>"

definition blank_answer :: "NodeID \<Rightarrow> NodeID \<Rightarrow> SchedulingDelta" where
  "blank_answer t r = \<lparr>Type = NOOP, TaskId = 0, ResourceId = []\<rparr>"

text \<open>The collaborators of round 1: the Solver answers T1 on P1 and T2 on P2.\<close>

definition round1 :: collaborators where
  "round1 =
     \<lparr>Solve = [(1, 11), (2, 12)],
      SchedulingDeltasForPreemptedTasks = (\<lambda>tm rm. []),
      NodeBindingToSchedulingDelta = NodeBindingToSchedulingDelta_spec show_id noop_answer,
      MustJobIDFromString = parse_id,
      MustResourceIDFromString = parse_id\<rparr>"

text \<open>
  A later state of the cluster in which T1 is recorded as bound to P1, and the answers of
  the collaborators in it. In the first the Solver keeps T1 on P1 and adds T2 on P2, and
  nothing is preempted; it comes with each of the two Graph Managers. In the next it
  moves T1 to P2 and puts T2 on P1, and the Graph Manager reports T1 as preempted from
  P1. In the last it puts T2 on P1 and the Graph Manager reports the preemption of a task
  3 that the Task Registry does not know.
\<close>

definition bound_cluster :: scheduler where
  "bound_cluster = cluster\<lparr>taskBindings := [1 \<mapsto> 11]\<rparr>"

definition round_keeping :: collaborators where
  "round_keeping = round1"

definition round_keeping_blank :: collaborators where
  "round_keeping_blank =
     round1\<lparr>NodeBindingToSchedulingDelta :=
       NodeBindingToSchedulingDelta_spec show_id blank_answer\<rparr>"

definition round_preempting_unknown :: collaborators where
  "round_preempting_unknown =
     round1
       \<lparr>Solve := [(2, 11)],
        SchedulingDeltasForPreemptedTasks :=
          (\<lambda>tm rm. [\<lparr>Type = PREEMPT, TaskId = 3, ResourceId = ''11''\<rparr>])\<rparr>"

definition round_preempting :: collaborators where
  "round_preempting =
     round1
       \<lparr>Solve := [(1, 12), (2, 11)],
        SchedulingDeltasForPreemptedTasks :=
          (\<lambda>tm rm. [\<lparr>Type = PREEMPT, TaskId = 1, ResourceId = ''11''\<rparr>])\<rparr>"

text \<open>The cluster with J1 pending, and the cluster whose Job Registry has lost J1.\<close>

definition pending_cluster :: scheduler where
  "pending_cluster =
     cluster\<lparr>jobsToSchedule := [7 \<mapsto> Ptr 1], runnableTasks := [7 \<mapsto> {1, 2}]\<rparr>"

definition orphan_cluster :: scheduler where
  "orphan_cluster = cluster\<lparr>jobMap := Map.empty\<rparr>"

section \<open>Evaluation of the scenarios\<close>

lemmas scenario_defs = cluster_def empty_scheduler_def round1_def round_keeping_def
  round_keeping_blank_def round_preempting_def round_preempting_unknown_def bound_cluster_def
  pending_cluster_def orphan_cluster_def parse_id_def show_id_def noop_answer_def
  blank_answer_def NodeBindingToSchedulingDelta_spec_def names_pair_def

lemmas operation_defs = RunSchedulingIteration_def ApplySchedulingDeltas_def
  ApplySchedulingDeltas_body_def round_deltas_def FindPtrOrNull_def HandleTaskPlacement_def
  HandleTaskEviction_def HandleTaskMigration_def has_record_def task_resolves_def
  resource_resolves_def type_recognized_def owning_job_def owning_job_absent_def
  preempt_deltas_def binding_deltas_def count_PLACE_def RegisterResource_def
  HandleJobCompletion_def

section \<open>What a round changes\<close>

lemma no_address_iff: "(\<forall>a. p \<noteq> Ptr a) \<longleftrightarrow> p = NilPtr"
  by (cases p) simp_all

lemma binding_loop_eq:
  "binding_loop env tm tb deltas =
     deltas @ map (\<lambda>(t, r). NodeBindingToSchedulingDelta env t r tb) tm"
  by (induction tm arbitrary: deltas) auto

lemma round_deltas_split: "round_deltas env s = preempt_deltas env s @ binding_deltas env s"
  by (simp add: round_deltas_def preempt_deltas_def binding_deltas_def binding_loop_eq Let_def)

lemma run_returns_round_deltas:
  "value_of (RunSchedulingIteration env s) = Some (ds, n) \<Longrightarrow> ds = round_deltas env s"
  by (auto simp: RunSchedulingIteration_def Let_def split: outcome.splits)

text \<open>Applying a delta touches nothing but the store of job descriptors.\<close>

lemma body_state:
  "\<exists>J. state_of (ApplySchedulingDeltas_body env d n s) = s\<lparr>jobs := J\<rparr>"
  unfolding ApplySchedulingDeltas_body_def HandleTaskPlacement_def
    HandleTaskEviction_def HandleTaskMigration_def
  by (auto split: ptr.split option.split ChangeType.split intro: exI [of _ "jobs s"])

lemma loop_state:
  "\<exists>J. state_of (ApplySchedulingDeltas_loop env ds n s) = s\<lparr>jobs := J\<rparr>"
proof (induction ds arbitrary: n s)
  case Nil
  show ?case by (auto intro: exI [of _ "jobs s"])
next
  case (Cons d ds)
  obtain J where J: "state_of (ApplySchedulingDeltas_body env d n s) = s\<lparr>jobs := J\<rparr>"
    using body_state by blast
  show ?case
  proof (cases "ApplySchedulingDeltas_body env d n s")
    case (Halted f s1)
    with J show ?thesis by auto
  next
    case (Returned n1 s1)
    with J have s1: "s1 = s\<lparr>jobs := J\<rparr>" by simp
    obtain J' where "state_of (ApplySchedulingDeltas_loop env ds n1 s1) = s1\<lparr>jobs := J'\<rparr>"
      using Cons.IH by blast
    with Returned s1 show ?thesis by auto
  qed
qed

lemma update_roots_eq:
  "update_roots rs s = s\<lparr>gm := gm s @ map UpdateResourceTopology rs\<rparr>"
  by (induction rs arbitrary: s) auto

text \<open>
  No statement of a round writes \<open>taskBindings\<close>: whether the round returns or halts, the
  map is the one the round started with.
\<close>

lemma RunSchedulingIteration_taskBindings:
  "taskBindings (state_of (RunSchedulingIteration env s)) = taskBindings s"
proof -
  obtain J where J:
    "state_of (ApplySchedulingDeltas_loop env (round_deltas env s) 0 s) = s\<lparr>jobs := J\<rparr>"
    using loop_state by blast
  show ?thesis
    using J unfolding RunSchedulingIteration_def ApplySchedulingDeltas_def Let_def
    by (cases "ApplySchedulingDeltas_loop env (round_deltas env s) 0 s")
       (auto simp: update_roots_eq)
qed

text \<open>
  C1. After a round, \<open>taskBindings\<close> should map every placed task to its resource; in the
  scenario of the spec it should be T1 on P1 and T2 on P2 after round 1. The round does
  return the two \<open>PLACE\<close> deltas and the count 2 and sets J1 to \<open>Running\<close>, but T1 and T2
  are still absent from \<open>taskBindings\<close>, so a second round with the same answer of the
  Solver derives the same two placements again.
\<close>

theorem round1_leaves_taskBindings_empty:
  "value_of (RunSchedulingIteration round1 cluster) =
     Some ([\<lparr>Type = PLACE, TaskId = 1, ResourceId = ''11''\<rparr>,
            \<lparr>Type = PLACE, TaskId = 2, ResourceId = ''12''\<rparr>], 2)
   \<and> State (jobs (state_of (RunSchedulingIteration round1 cluster)) 1) = Running
   \<and> taskBindings (state_of (RunSchedulingIteration round1 cluster)) 1 = None
   \<and> taskBindings (state_of (RunSchedulingIteration round1 cluster)) 2 = None
   \<and> round_deltas round1 (state_of (RunSchedulingIteration round1 cluster)) =
       [\<lparr>Type = PLACE, TaskId = 1, ResourceId = ''11''\<rparr>,
        \<lparr>Type = PLACE, TaskId = 2, ResourceId = ''12''\<rparr>]"
  by (simp add: scenario_defs operation_defs)

section \<open>Resource registration\<close>

text \<open>
  What the registration of a node does to the resource descriptors: the descriptor of
  the node itself is marked when it is a PU, and no other descriptor is written.
\<close>

lemma RegisterResource_descs:
  "ResourceDesc (nodes s n) = Ptr r \<Longrightarrow>
     descs (state_of (RegisterResource (Ptr n) s)) =
       (if ResType (descs s r) = ResourcePu
        then (descs s)(r := (descs s r)\<lparr>Schedulable := True\<rparr>)
        else descs s)"
  by (simp add: RegisterResource_def Let_def)

lemma RegisterResource_roots_distinct:
  "distinct (resourceRoots s) \<Longrightarrow> distinct (resourceRoots (state_of (RegisterResource p s)))"
  by (cases p; cases "ResourceDesc (nodes s (case p of Ptr n \<Rightarrow> n))")
     (auto simp: RegisterResource_def Let_def)

text \<open>
  C2. After \<^verbatim>\<open>RegisterResource\<close> every PU of the subtree should be schedulable. Registering
  the machine M1, whose children are the PUs P1 and P2, returns and leaves the child P1,
  a PU, not schedulable: the loop pops the root and never pushes its children.
\<close>

theorem RegisterResource_leaves_child_PU_unmarked:
  "value_of (RegisterResource (Ptr 0) cluster) = Some ()
   \<and> Children (nodes cluster 0) = [Ptr 1, Ptr 2]
   \<and> ResourceDesc (nodes cluster 1) = Ptr 1
   \<and> ResType (descs (state_of (RegisterResource (Ptr 0) cluster)) 1) = ResourcePu
   \<and> Schedulable (descs (state_of (RegisterResource (Ptr 0) cluster)) 1) = False"
  by (simp add: scenario_defs operation_defs)

section \<open>The order of the delta list\<close>

text \<open>Applying a list that is two lists in a row applies the first, then the second.\<close>

lemma loop_append:
  "ApplySchedulingDeltas_loop env (xs @ ys) n s =
     (case ApplySchedulingDeltas_loop env xs n s of
        Halted f s1 \<Rightarrow> Halted f s1
      | Returned n1 s1 \<Rightarrow> ApplySchedulingDeltas_loop env ys n1 s1)"
  by (induction xs arbitrary: n s) (auto split: outcome.splits)

lemma run_applies_round_deltas:
  "RunSchedulingIteration env s =
     (case ApplySchedulingDeltas env (preempt_deltas env s @ binding_deltas env s) s of
        Halted f s1 \<Rightarrow> Halted f s1
      | Returned n s1 \<Rightarrow>
          Returned (preempt_deltas env s @ binding_deltas env s, n)
            (update_roots (resourceRoots s1) s1))"
  by (simp add: RunSchedulingIteration_def Let_def round_deltas_split)

text \<open>
  C3. The delta list of a round is the preemption deltas of the round followed by the
  binding deltas: every preemption delta stands at an index below that of every binding
  delta. That list is the one the round hands to \<^verbatim>\<open>ApplySchedulingDeltas\<close> and the one it
  returns. Hence the round applies all preemption deltas, in order, from the state and
  the count it starts with, halts where one of them halts, and only then applies the
  binding deltas from the state and the count the preemption deltas have left.
\<close>

theorem preemption_deltas_precede_binding_deltas:
  "round_deltas env s = preempt_deltas env s @ binding_deltas env s
   \<and> (\<forall>ds n. value_of (RunSchedulingIteration env s) = Some (ds, n) \<longrightarrow> ds = round_deltas env s)
   \<and> (\<forall>i < length (preempt_deltas env s). \<forall>j < length (binding_deltas env s).
        round_deltas env s ! i = preempt_deltas env s ! i
        \<and> round_deltas env s ! (length (preempt_deltas env s) + j) = binding_deltas env s ! j
        \<and> i < length (preempt_deltas env s) + j)
   \<and> RunSchedulingIteration env s =
       (case ApplySchedulingDeltas env (preempt_deltas env s @ binding_deltas env s) s of
          Halted f s1 \<Rightarrow> Halted f s1
        | Returned n s1 \<Rightarrow>
            Returned (preempt_deltas env s @ binding_deltas env s, n)
              (update_roots (resourceRoots s1) s1))
   \<and> RunSchedulingIteration env s =
       (case ApplySchedulingDeltas env (preempt_deltas env s) s of
          Halted f s1 \<Rightarrow> Halted f s1
        | Returned n1 s1 \<Rightarrow>
            (case ApplySchedulingDeltas_loop env (binding_deltas env s) n1 s1 of
               Halted f s2 \<Rightarrow> Halted f s2
             | Returned n2 s2 \<Rightarrow>
                 Returned (preempt_deltas env s @ binding_deltas env s, n2)
                   (update_roots (resourceRoots s2) s2)))"
proof -
  have order: "\<forall>i < length (preempt_deltas env s). \<forall>j < length (binding_deltas env s).
        round_deltas env s ! i = preempt_deltas env s ! i
        \<and> round_deltas env s ! (length (preempt_deltas env s) + j) = binding_deltas env s ! j
        \<and> i < length (preempt_deltas env s) + j"
    by (auto simp: round_deltas_split nth_append)
  have returned: "\<forall>ds n. value_of (RunSchedulingIteration env s) = Some (ds, n)
        \<longrightarrow> ds = round_deltas env s"
    using run_returns_round_deltas by blast
  have phases: "RunSchedulingIteration env s =
       (case ApplySchedulingDeltas env (preempt_deltas env s) s of
          Halted f s1 \<Rightarrow> Halted f s1
        | Returned n1 s1 \<Rightarrow>
            (case ApplySchedulingDeltas_loop env (binding_deltas env s) n1 s1 of
               Halted f s2 \<Rightarrow> Halted f s2
             | Returned n2 s2 \<Rightarrow>
                 Returned (preempt_deltas env s @ binding_deltas env s, n2)
                   (update_roots (resourceRoots s2) s2)))"
    by (simp add: run_applies_round_deltas ApplySchedulingDeltas_def loop_append
        split: outcome.splits)
  from order returned phases show ?thesis
    using round_deltas_split [of env s] run_applies_round_deltas [of env s] by blast
qed

text \<open>
  In the round that preempts T1 from P1 and places T2 on P1, the \<open>PREEMPT\<close> delta of T1 is
  at index 0 and the \<open>PLACE\<close> delta of T2 at index 2, and the round returns with J1
  \<open>Running\<close>. In the round whose preemption delta names the unknown task 3, the round
  halts on that delta and the placement of T2 behind it has not happened: J1 is still
  \<open>Pending\<close>.
\<close>

theorem preemption_deltas_precede_binding_deltas_witness:
  "value_of (RunSchedulingIteration round_preempting bound_cluster) =
     Some (round_deltas round_preempting bound_cluster, 1)
   \<and> (0::nat) < length (preempt_deltas round_preempting bound_cluster)
   \<and> (1::nat) < length (binding_deltas round_preempting bound_cluster)
   \<and> round_deltas round_preempting bound_cluster ! 0 =
       \<lparr>Type = PREEMPT, TaskId = 1, ResourceId = ''11''\<rparr>
   \<and> round_deltas round_preempting bound_cluster ! (1 + 1) =
       \<lparr>Type = PLACE, TaskId = 2, ResourceId = ''11''\<rparr>
   \<and> State (jobs bound_cluster 1) = Pending
   \<and> State (jobs (state_of (RunSchedulingIteration round_preempting bound_cluster)) 1) = Running
   \<and> round_deltas round_preempting_unknown bound_cluster =
       [\<lparr>Type = PREEMPT, TaskId = 3, ResourceId = ''11''\<rparr>,
        \<lparr>Type = PLACE, TaskId = 2, ResourceId = ''11''\<rparr>]
   \<and> fault_of (ApplySchedulingDeltas round_preempting_unknown
        (preempt_deltas round_preempting_unknown bound_cluster) bound_cluster) = Some ExplicitPanic
   \<and> fault_of (RunSchedulingIteration round_preempting_unknown bound_cluster) = Some ExplicitPanic
   \<and> State (jobs (state_of (RunSchedulingIteration round_preempting_unknown bound_cluster)) 1) =
       Pending"
  using preemption_deltas_precede_binding_deltas [of round_preempting bound_cluster]
    preemption_deltas_precede_binding_deltas [of round_preempting_unknown bound_cluster]
  by (simp add: scenario_defs operation_defs)

section \<open>The binding diff\<close>

lemma length_round_deltas:
  "length (round_deltas env s) = length (preempt_deltas env s) + length (Solve env)"
  by (simp add: round_deltas_split binding_deltas_def)

lemma round_deltas_nth_pair:
  "i < length (Solve env) \<Longrightarrow> Solve env ! i = (t, r) \<Longrightarrow>
     round_deltas env s ! (length (preempt_deltas env s) + i) =
       NodeBindingToSchedulingDelta env t r (taskBindings s)"
  by (simp add: round_deltas_split binding_deltas_def nth_append)

lemma distinct_key_index:
  "distinct (map fst tm) \<Longrightarrow> i < length tm \<Longrightarrow> j < length tm \<Longrightarrow>
     fst (tm ! j) = fst (tm ! i) \<Longrightarrow> j = i"
  using nth_eq_iff_index_eq [of "map fst tm" j i] by simp

text \<open>
  C4, as the code has it. The loop appends the Graph Manager's answer for every pair, so
  the round's list has one element for each pair of the assignment behind the
  preemption deltas, the pair at position \<open>i\<close> giving the element at position \<open>i\<close> of that
  part, and no other position comes from the same task (the keys of the assignment are
  distinct, as those of a Go map are). For a task bound to another resource that one
  element is a \<open>MIGRATE\<close> delta naming the pair, for a task that is not bound it is a
  \<open>PLACE\<close> delta naming the pair, and for a task bound to that very resource it is what
  the Graph Manager hands back when no delta is needed.
\<close>

theorem binding_diff_one_delta_per_pair:
  assumes gm: "NodeBindingToSchedulingDelta env = NodeBindingToSchedulingDelta_spec str idle"
    and dist: "distinct (map fst (Solve env))"
    and i: "i < length (Solve env)"
    and pair: "Solve env ! i = (t, r)"
    and render: "MustResourceIDFromString env (str r) = Some r"
  shows "length (round_deltas env s) = length (preempt_deltas env s) + length (Solve env)
    \<and> (\<forall>j < length (Solve env). fst (Solve env ! j) = t \<longrightarrow> j = i)
    \<and> (taskBindings s t = Some r \<longrightarrow>
         round_deltas env s ! (length (preempt_deltas env s) + i) = idle t r)
    \<and> (\<forall>r1. taskBindings s t = Some r1 \<and> r1 \<noteq> r \<longrightarrow>
         Type (round_deltas env s ! (length (preempt_deltas env s) + i)) = MIGRATE
         \<and> names_pair env (round_deltas env s ! (length (preempt_deltas env s) + i)) t r)
    \<and> (taskBindings s t = None \<longrightarrow>
         Type (round_deltas env s ! (length (preempt_deltas env s) + i)) = PLACE
         \<and> names_pair env (round_deltas env s ! (length (preempt_deltas env s) + i)) t r)"
proof -
  have at: "round_deltas env s ! (length (preempt_deltas env s) + i) =
      NodeBindingToSchedulingDelta_spec str idle t r (taskBindings s)"
    using round_deltas_nth_pair [OF i pair, of s] gm by simp
  have only: "\<forall>j < length (Solve env). fst (Solve env ! j) = t \<longrightarrow> j = i"
    using distinct_key_index [OF dist i] pair by simp
  from only render show ?thesis
    unfolding at
    by (simp add: length_round_deltas NodeBindingToSchedulingDelta_spec_def names_pair_def)
qed

text \<open>
  With T1 bound to P1 and no preemption: the pair T1 on P1 gives the first element, which
  is the \<open>NOOP\<close> of the one Graph Manager and the blank delta of the other; the pair T2 on
  P2 gives the second element, a \<open>PLACE\<close> of T2 on P2. In the preempting round the pair T1
  on P2 gives the element behind the preemption delta, a \<open>MIGRATE\<close> of T1 to P2.
\<close>

theorem binding_diff_one_delta_per_pair_witness:
  "length (round_deltas round_keeping bound_cluster) = 2
   \<and> round_deltas round_keeping bound_cluster ! 0 =
       \<lparr>Type = NOOP, TaskId = 1, ResourceId = ''11''\<rparr>
   \<and> round_deltas round_keeping_blank bound_cluster ! 0 =
       \<lparr>Type = NOOP, TaskId = 0, ResourceId = []\<rparr>
   \<and> Type (round_deltas round_keeping bound_cluster ! 1) = PLACE
   \<and> names_pair round_keeping (round_deltas round_keeping bound_cluster ! 1) 2 12
   \<and> Type (round_deltas round_preempting bound_cluster ! 1) = MIGRATE
   \<and> names_pair round_preempting (round_deltas round_preempting bound_cluster ! 1) 1 12"
proof -
  have gk: "NodeBindingToSchedulingDelta round_keeping =
      NodeBindingToSchedulingDelta_spec show_id noop_answer"
    and gb: "NodeBindingToSchedulingDelta round_keeping_blank =
      NodeBindingToSchedulingDelta_spec show_id blank_answer"
    and gp: "NodeBindingToSchedulingDelta round_preempting =
      NodeBindingToSchedulingDelta_spec show_id noop_answer"
    by (simp_all add: round_keeping_def round_keeping_blank_def round_preempting_def round1_def)
  have dk: "distinct (map fst (Solve round_keeping))"
    and db: "distinct (map fst (Solve round_keeping_blank))"
    and dp: "distinct (map fst (Solve round_preempting))"
    by (simp_all add: round_keeping_def round_keeping_blank_def round_preempting_def round1_def)
  have ik: "0 < length (Solve round_keeping)" "1 < length (Solve round_keeping)"
    and ib: "0 < length (Solve round_keeping_blank)"
    and ip: "0 < length (Solve round_preempting)"
    by (simp_all add: round_keeping_def round_keeping_blank_def round_preempting_def round1_def)
  have pk: "Solve round_keeping ! 0 = (1, 11)" "Solve round_keeping ! 1 = (2, 12)"
    and pb: "Solve round_keeping_blank ! 0 = (1, 11)"
    and pp: "Solve round_preempting ! 0 = (1, 12)"
    by (simp_all add: round_keeping_def round_keeping_blank_def round_preempting_def round1_def)
  have rk: "MustResourceIDFromString round_keeping (show_id 11) = Some 11"
    "MustResourceIDFromString round_keeping (show_id 12) = Some 12"
    and rb: "MustResourceIDFromString round_keeping_blank (show_id 11) = Some 11"
    and rp: "MustResourceIDFromString round_preempting (show_id 12) = Some 12"
    by (simp_all add: scenario_defs)
  have b: "taskBindings bound_cluster 1 = Some 11" "taskBindings bound_cluster 2 = None"
    by (simp_all add: bound_cluster_def cluster_def empty_scheduler_def)
  have l: "length (preempt_deltas round_keeping bound_cluster) = 0"
    "length (preempt_deltas round_keeping_blank bound_cluster) = 0"
    "length (preempt_deltas round_preempting bound_cluster) = 1"
    "length (Solve round_keeping) = 2"
    by (simp_all add: scenario_defs preempt_deltas_def)
  from binding_diff_one_delta_per_pair [OF gk dk ik(1) pk(1) rk(1), of bound_cluster]
    binding_diff_one_delta_per_pair [OF gb db ib pb rb, of bound_cluster]
    binding_diff_one_delta_per_pair [OF gk dk ik(2) pk(2) rk(2), of bound_cluster]
    binding_diff_one_delta_per_pair [OF gp dp ip pp rp, of bound_cluster] b l
  show ?thesis by (simp add: noop_answer_def blank_answer_def show_id_def)
qed

text \<open>
  C4, as it is stated, fails: with T1 bound to P1, no preemption and an assignment of two
  pairs that keeps T1 on P1, the round's delta list has two elements, and the first is
  the Graph Manager's answer for the pair T1 on P1. This is so with either Graph
  Manager.
\<close>

theorem unchanged_pair_contributes_a_delta:
  "taskBindings bound_cluster 1 = Some 11
   \<and> Solve round_keeping = [(1, 11), (2, 12)]
   \<and> preempt_deltas round_keeping bound_cluster = []
   \<and> length (round_deltas round_keeping bound_cluster) = 2
   \<and> round_deltas round_keeping bound_cluster ! 0 =
       NodeBindingToSchedulingDelta round_keeping 1 11 (taskBindings bound_cluster)
   \<and> Solve round_keeping_blank = [(1, 11), (2, 12)]
   \<and> preempt_deltas round_keeping_blank bound_cluster = []
   \<and> length (round_deltas round_keeping_blank bound_cluster) = 2
   \<and> round_deltas round_keeping_blank bound_cluster ! 0 =
       NodeBindingToSchedulingDelta round_keeping_blank 1 11 (taskBindings bound_cluster)"
  by (simp add: scenario_defs operation_defs)

section \<open>The placement count\<close>

lemma body_count:
  "ApplySchedulingDeltas_body env d n s = Returned n1 s1 \<Longrightarrow> n1 = n + count_PLACE [d]"
  unfolding ApplySchedulingDeltas_body_def count_PLACE_def
  by (auto split: ptr.splits option.splits ChangeType.splits)

lemma loop_count:
  "ApplySchedulingDeltas_loop env ds n s = Returned n1 s1 \<Longrightarrow> n1 = n + count_PLACE ds"
proof (induction ds arbitrary: n s)
  case Nil
  then show ?case by (simp add: count_PLACE_def)
next
  case (Cons d ds)
  then obtain n2 s2 where b: "ApplySchedulingDeltas_body env d n s = Returned n2 s2"
    and l: "ApplySchedulingDeltas_loop env ds n2 s2 = Returned n1 s1"
    by (auto split: outcome.splits)
  from body_count [OF b] Cons.IH [OF l] show ?case
    by (simp add: count_PLACE_def)
qed

text \<open>
  C5. When \<^verbatim>\<open>RunSchedulingIteration\<close> returns the list \<open>ds\<close> and the count \<open>n\<close>, then \<open>n\<close> is
  the number of \<open>PLACE\<close> deltas of \<open>ds\<close>, whatever else the list holds.
\<close>

theorem placement_count_is_number_of_PLACE:
  assumes "value_of (RunSchedulingIteration env s) = Some (ds, n)"
  shows "n = count_PLACE ds"
proof -
  from assms obtain s1 where "ApplySchedulingDeltas_loop env ds 0 s = Returned n s1"
    by (auto simp: RunSchedulingIteration_def ApplySchedulingDeltas_def Let_def
        split: outcome.splits)
  from loop_count [OF this] show ?thesis by simp
qed

text \<open>A round that returns a preemption, a migration and one placement counts 1.\<close>

theorem placement_count_is_number_of_PLACE_witness:
  "value_of (RunSchedulingIteration round_preempting bound_cluster) =
     Some ([\<lparr>Type = PREEMPT, TaskId = 1, ResourceId = ''11''\<rparr>,
            \<lparr>Type = MIGRATE, TaskId = 1, ResourceId = ''12''\<rparr>,
            \<lparr>Type = PLACE, TaskId = 2, ResourceId = ''11''\<rparr>], 1)
   \<and> count_PLACE [\<lparr>Type = PREEMPT, TaskId = 1, ResourceId = ''11''\<rparr>,
            \<lparr>Type = MIGRATE, TaskId = 1, ResourceId = ''12''\<rparr>,
            \<lparr>Type = PLACE, TaskId = 2, ResourceId = ''11''\<rparr>] = 1"
proof -
  have h: "value_of (RunSchedulingIteration round_preempting bound_cluster) =
     Some ([\<lparr>Type = PREEMPT, TaskId = 1, ResourceId = ''11''\<rparr>,
            \<lparr>Type = MIGRATE, TaskId = 1, ResourceId = ''12''\<rparr>,
            \<lparr>Type = PLACE, TaskId = 2, ResourceId = ''11''\<rparr>], 1)"
    by (simp add: scenario_defs operation_defs)
  from placement_count_is_number_of_PLACE [OF h] h show ?thesis by simp
qed

section \<open>Job completion\<close>

text \<open>
  C7. \<^verbatim>\<open>HandleJobCompletion\<close> halts exactly when the Job Registry has no record for the
  job. When the lookup yields the descriptor \<open>jd\<close>, the call returns, the job is in neither
  pending-work set any more and the state of \<open>jd\<close> is \<open>Completed\<close>.
\<close>

theorem HandleJobCompletion_halts_iff_no_record:
  "(fault_of (HandleJobCompletion j s) \<noteq> None \<longleftrightarrow> \<not> has_record (jobMap s) j)
   \<and> (\<forall>jd. FindPtrOrNull (jobMap s) j = Ptr jd \<longrightarrow>
         value_of (HandleJobCompletion j s) = Some ()
         \<and> jobsToSchedule (state_of (HandleJobCompletion j s)) j = None
         \<and> runnableTasks (state_of (HandleJobCompletion j s)) j = None
         \<and> State (jobs (state_of (HandleJobCompletion j s)) jd) = Completed)"
  by (cases "FindPtrOrNull (jobMap s) j")
     (simp_all add: HandleJobCompletion_def has_record_def)

text \<open>J1 (identifier 7) is on record and pending; no job has the identifier 8.\<close>

theorem HandleJobCompletion_halts_iff_no_record_witness:
  "has_record (jobMap pending_cluster) 7
   \<and> FindPtrOrNull (jobMap pending_cluster) 7 = Ptr 1
   \<and> jobsToSchedule pending_cluster 7 = Some (Ptr 1)
   \<and> runnableTasks pending_cluster 7 = Some {1, 2}
   \<and> fault_of (HandleJobCompletion 7 pending_cluster) = None
   \<and> jobsToSchedule (state_of (HandleJobCompletion 7 pending_cluster)) 7 = None
   \<and> runnableTasks (state_of (HandleJobCompletion 7 pending_cluster)) 7 = None
   \<and> State (jobs (state_of (HandleJobCompletion 7 pending_cluster)) 1) = Completed
   \<and> \<not> has_record (jobMap pending_cluster) 8
   \<and> fault_of (HandleJobCompletion 8 pending_cluster) \<noteq> None"
proof -
  have h: "has_record (jobMap pending_cluster) 7"
    "FindPtrOrNull (jobMap pending_cluster) 7 = Ptr 1"
    "\<not> has_record (jobMap pending_cluster) 8"
    "jobsToSchedule pending_cluster 7 = Some (Ptr 1)"
    "runnableTasks pending_cluster 7 = Some {1, 2}"
    by (simp_all add: scenario_defs has_record_def FindPtrOrNull_def)
  from HandleJobCompletion_halts_iff_no_record [of 7 pending_cluster]
    HandleJobCompletion_halts_iff_no_record [of 8 pending_cluster] h
  show ?thesis by simp
qed

text \<open>
  C10. When the Job Registry has no record for the job, \<^verbatim>\<open>HandleJobCompletion\<close> halts in
  \<^verbatim>\<open>log.Panicf\<close> with the notification \<open>JobCompleted\<close> already sent to the Graph Manager,
  and with the pending-work sets, the job descriptors and everything else as before.
\<close>

theorem HandleJobCompletion_failure_after_notification:
  assumes "\<not> has_record (jobMap s) j"
  shows "fault_of (HandleJobCompletion j s) = Some LogPanicf
    \<and> gm (state_of (HandleJobCompletion j s)) = gm s @ [JobCompleted j]
    \<and> jobsToSchedule (state_of (HandleJobCompletion j s)) = jobsToSchedule s
    \<and> runnableTasks (state_of (HandleJobCompletion j s)) = runnableTasks s
    \<and> jobs (state_of (HandleJobCompletion j s)) = jobs s
    \<and> state_of (HandleJobCompletion j s) = s\<lparr>gm := gm s @ [JobCompleted j]\<rparr>"
  using assms
  by (cases "FindPtrOrNull (jobMap s) j") (simp_all add: HandleJobCompletion_def has_record_def)

text \<open>Completing the unknown job 8 while J1 is pending.\<close>

theorem HandleJobCompletion_failure_after_notification_witness:
  "\<not> has_record (jobMap pending_cluster) 8
   \<and> fault_of (HandleJobCompletion 8 pending_cluster) = Some LogPanicf
   \<and> gm (state_of (HandleJobCompletion 8 pending_cluster)) = [JobCompleted 8]
   \<and> jobsToSchedule (state_of (HandleJobCompletion 8 pending_cluster)) 7 = Some (Ptr 1)
   \<and> runnableTasks (state_of (HandleJobCompletion 8 pending_cluster)) 7 = Some {1, 2}
   \<and> State (jobs (state_of (HandleJobCompletion 8 pending_cluster)) 1) = Pending"
proof -
  have h: "\<not> has_record (jobMap pending_cluster) 8"
    by (simp add: scenario_defs has_record_def FindPtrOrNull_def)
  from HandleJobCompletion_failure_after_notification [OF h] h
  show ?thesis by (simp add: scenario_defs)
qed

section \<open>Halting of the delta application\<close>

lemma body_returns_iff:
  "fault_of (ApplySchedulingDeltas_body env d n s) = None \<longleftrightarrow> applicable env s d"
  unfolding ApplySchedulingDeltas_body_def applicable_def task_resolves_def
    resource_resolves_def type_recognized_def owning_job_def has_record_def
  by (auto split: ptr.splits option.splits ChangeType.splits)

lemma applicable_jobs: "applicable env (s\<lparr>jobs := J\<rparr>) d = applicable env s d"
  by (simp add: applicable_def task_resolves_def resource_resolves_def owning_job_def
      cong: option.case_cong ptr.case_cong)

text \<open>
  The application returns exactly when every delta of the list is applicable: the first
  one that is not halts it, and none is skipped.
\<close>

lemma loop_returns_iff:
  "fault_of (ApplySchedulingDeltas_loop env ds n s) = None \<longleftrightarrow> (\<forall>d\<in>set ds. applicable env s d)"
proof (induction ds arbitrary: n s)
  case Nil
  show ?case by simp
next
  case (Cons d ds)
  obtain J where J: "state_of (ApplySchedulingDeltas_body env d n s) = s\<lparr>jobs := J\<rparr>"
    using body_state by blast
  show ?case
  proof (cases "ApplySchedulingDeltas_body env d n s")
    case (Halted f s1)
    then have "\<not> applicable env s d"
      using body_returns_iff [of env d n s] by simp
    with Halted show ?thesis by simp
  next
    case (Returned n1 s1)
    then have a: "applicable env s d"
      using body_returns_iff [of env d n s] by simp
    from Returned J have s1: "s1 = s\<lparr>jobs := J\<rparr>" by simp
    from Cons.IH [of n1 s1] Returned a s1 show ?thesis by (simp add: applicable_jobs)
  qed
qed

text \<open>
  C8, as the code has it. If some delta of the list has a task or a resource that does
  not resolve, or a type that is none of the four, \<^verbatim>\<open>ApplySchedulingDeltas\<close> halts. If
  every delta has a task and a resource that resolve and a recognized type and, when it
  is a \<open>PLACE\<close>, an owning job on record, \<^verbatim>\<open>ApplySchedulingDeltas\<close> returns.
\<close>

theorem ApplySchedulingDeltas_halts_or_applies:
  "((\<exists>d\<in>set ds. \<not> task_resolves s d \<or> \<not> resource_resolves env s d \<or> \<not> type_recognized d)
      \<longrightarrow> fault_of (ApplySchedulingDeltas env ds s) \<noteq> None)
   \<and> ((\<forall>d\<in>set ds. task_resolves s d \<and> resource_resolves env s d \<and> type_recognized d
          \<and> (Type d = PLACE \<longrightarrow> owning_job env s d \<noteq> None))
      \<longrightarrow> fault_of (ApplySchedulingDeltas env ds s) = None)"
  unfolding ApplySchedulingDeltas_def loop_returns_iff
  by (auto simp: applicable_def)

text \<open>
  One list of each kind in the cluster: four applicable deltas, a delta for the unknown
  task 3, a delta for the unknown resource 7, and a delta of the unnamed type 9.
\<close>

theorem ApplySchedulingDeltas_halts_or_applies_witness:
  "fault_of (ApplySchedulingDeltas round1
      [\<lparr>Type = PLACE, TaskId = 1, ResourceId = ''11''\<rparr>,
       \<lparr>Type = PREEMPT, TaskId = 1, ResourceId = ''11''\<rparr>,
       \<lparr>Type = MIGRATE, TaskId = 2, ResourceId = ''12''\<rparr>,
       \<lparr>Type = NOOP, TaskId = 2, ResourceId = ''12''\<rparr>] cluster) = None
   \<and> \<not> task_resolves cluster \<lparr>Type = NOOP, TaskId = 3, ResourceId = ''12''\<rparr>
   \<and> fault_of (ApplySchedulingDeltas round1
      [\<lparr>Type = PLACE, TaskId = 1, ResourceId = ''11''\<rparr>,
       \<lparr>Type = NOOP, TaskId = 3, ResourceId = ''12''\<rparr>] cluster) \<noteq> None
   \<and> \<not> resource_resolves round1 cluster \<lparr>Type = NOOP, TaskId = 1, ResourceId = ''7''\<rparr>
   \<and> fault_of (ApplySchedulingDeltas round1
      [\<lparr>Type = NOOP, TaskId = 1, ResourceId = ''7''\<rparr>] cluster) \<noteq> None
   \<and> \<not> type_recognized \<lparr>Type = UnknownChangeType 9, TaskId = 1, ResourceId = ''11''\<rparr>
   \<and> fault_of (ApplySchedulingDeltas round1
      [\<lparr>Type = UnknownChangeType 9, TaskId = 1, ResourceId = ''11''\<rparr>] cluster) \<noteq> None"
proof -
  let ?ok = "[\<lparr>Type = PLACE, TaskId = 1, ResourceId = ''11''\<rparr>,
       \<lparr>Type = PREEMPT, TaskId = 1, ResourceId = ''11''\<rparr>,
       \<lparr>Type = MIGRATE, TaskId = 2, ResourceId = ''12''\<rparr>,
       \<lparr>Type = NOOP, TaskId = 2, ResourceId = ''12''\<rparr>]"
  let ?t = "[\<lparr>Type = PLACE, TaskId = 1, ResourceId = ''11''\<rparr>,
       \<lparr>Type = NOOP, TaskId = 3, ResourceId = ''12''\<rparr>]"
  let ?r = "[\<lparr>Type = NOOP, TaskId = 1, ResourceId = ''7''\<rparr>]"
  let ?u = "[\<lparr>Type = UnknownChangeType 9, TaskId = 1, ResourceId = ''11''\<rparr>]"
  have ok: "\<forall>d\<in>set ?ok. task_resolves cluster d \<and> resource_resolves round1 cluster d
      \<and> type_recognized d \<and> (Type d = PLACE \<longrightarrow> owning_job round1 cluster d \<noteq> None)"
    by (simp add: scenario_defs operation_defs)
  have t: "\<not> task_resolves cluster \<lparr>Type = NOOP, TaskId = 3, ResourceId = ''12''\<rparr>"
    and r: "\<not> resource_resolves round1 cluster \<lparr>Type = NOOP, TaskId = 1, ResourceId = ''7''\<rparr>"
    and u: "\<not> type_recognized \<lparr>Type = UnknownChangeType 9, TaskId = 1, ResourceId = ''11''\<rparr>"
    by (simp_all add: scenario_defs operation_defs)
  from ApplySchedulingDeltas_halts_or_applies [of ?ok cluster round1]
    ApplySchedulingDeltas_halts_or_applies [of ?t cluster round1]
    ApplySchedulingDeltas_halts_or_applies [of ?r cluster round1]
    ApplySchedulingDeltas_halts_or_applies [of ?u cluster round1] ok t r u
  show ?thesis by simp
qed

text \<open>
  C8, as it is stated, fails: in the cluster whose Job Registry has no record of J1, the
  \<open>PLACE\<close> delta of T1 on P1 has a task and a resource that resolve and a recognized type,
  and its application halts.
\<close>

theorem resolved_PLACE_halts_without_job:
  "task_resolves orphan_cluster \<lparr>Type = PLACE, TaskId = 1, ResourceId = ''11''\<rparr>
   \<and> resource_resolves round1 orphan_cluster \<lparr>Type = PLACE, TaskId = 1, ResourceId = ''11''\<rparr>
   \<and> type_recognized \<lparr>Type = PLACE, TaskId = 1, ResourceId = ''11''\<rparr>
   \<and> fault_of (ApplySchedulingDeltas round1
        [\<lparr>Type = PLACE, TaskId = 1, ResourceId = ''11''\<rparr>] orphan_cluster) = Some NilDereference"
  by (simp add: scenario_defs operation_defs)

text \<open>
  C9. Applying a delta ends in a nil dereference exactly when the delta is a \<open>PLACE\<close>, its
  task and resource resolve and the owning job, whose identifier is readable, is not on
  record; the delta then halts with the state untouched. A task or a resource that is
  not on record ends in the explicit \<^verbatim>\<open>panic\<close> that follows its lookup instead.
\<close>

theorem job_lookup_is_the_unguarded_one:
  "(fault_of (ApplySchedulingDeltas_body env d n s) = Some NilDereference \<longleftrightarrow>
      Type d = PLACE \<and> task_resolves s d \<and> resource_resolves env s d \<and> owning_job_absent env s d)
   \<and> (Type d = PLACE \<and> task_resolves s d \<and> resource_resolves env s d \<and> owning_job_absent env s d
        \<longrightarrow> ApplySchedulingDeltas_body env d n s = Halted NilDereference s)
   \<and> (\<not> task_resolves s d \<longrightarrow> fault_of (ApplySchedulingDeltas_body env d n s) = Some ExplicitPanic)
   \<and> (\<forall>resID. task_resolves s d \<and> MustResourceIDFromString env (ResourceId d) = Some resID
        \<and> \<not> has_record (resourceMap s) resID
        \<longrightarrow> fault_of (ApplySchedulingDeltas_body env d n s) = Some ExplicitPanic)"
  unfolding ApplySchedulingDeltas_body_def task_resolves_def
    resource_resolves_def owning_job_absent_def has_record_def
  by (auto simp: no_address_iff split: ptr.splits option.splits ChangeType.splits)

text \<open>
  In the cluster without J1: the \<open>PLACE\<close> of T1 on P1 is a nil dereference, a \<open>PLACE\<close> of the
  unknown task 3 and a \<open>PLACE\<close> on the unknown resource 7 are explicit panics.
\<close>

theorem job_lookup_is_the_unguarded_one_witness:
  "task_resolves orphan_cluster \<lparr>Type = PLACE, TaskId = 1, ResourceId = ''11''\<rparr>
   \<and> resource_resolves round1 orphan_cluster \<lparr>Type = PLACE, TaskId = 1, ResourceId = ''11''\<rparr>
   \<and> owning_job_absent round1 orphan_cluster \<lparr>Type = PLACE, TaskId = 1, ResourceId = ''11''\<rparr>
   \<and> ApplySchedulingDeltas_body round1 \<lparr>Type = PLACE, TaskId = 1, ResourceId = ''11''\<rparr> 0
        orphan_cluster = Halted NilDereference orphan_cluster
   \<and> \<not> task_resolves orphan_cluster \<lparr>Type = PLACE, TaskId = 3, ResourceId = ''11''\<rparr>
   \<and> fault_of (ApplySchedulingDeltas_body round1 \<lparr>Type = PLACE, TaskId = 3, ResourceId = ''11''\<rparr> 0
        orphan_cluster) = Some ExplicitPanic
   \<and> MustResourceIDFromString round1 ''7'' = Some 7
   \<and> \<not> has_record (resourceMap orphan_cluster) 7
   \<and> fault_of (ApplySchedulingDeltas_body round1 \<lparr>Type = PLACE, TaskId = 1, ResourceId = ''7''\<rparr> 0
        orphan_cluster) = Some ExplicitPanic"
proof -
  let ?d = "\<lparr>Type = PLACE, TaskId = 1, ResourceId = ''11''\<rparr>"
  let ?dt = "\<lparr>Type = PLACE, TaskId = 3, ResourceId = ''11''\<rparr>"
  let ?dr = "\<lparr>Type = PLACE, TaskId = 1, ResourceId = ''7''\<rparr>"
  have h: "Type ?d = PLACE" "task_resolves orphan_cluster ?d"
    "resource_resolves round1 orphan_cluster ?d" "owning_job_absent round1 orphan_cluster ?d"
    "\<not> task_resolves orphan_cluster ?dt" "task_resolves orphan_cluster ?dr"
    "MustResourceIDFromString round1 (ResourceId ?dr) = Some 7"
    "\<not> has_record (resourceMap orphan_cluster) 7"
    by (simp_all add: scenario_defs operation_defs)
  from job_lookup_is_the_unguarded_one [of round1 ?d 0 orphan_cluster]
    job_lookup_is_the_unguarded_one [of round1 ?dt 0 orphan_cluster]
    job_lookup_is_the_unguarded_one [of round1 ?dr 0 orphan_cluster] h
  show ?thesis by simp
qed

section \<open>Job activation\<close>

lemma body_PLACE:
  assumes "Type d = PLACE" and "resource_resolves env s d" and "owning_job env s d = Some jd"
  shows "value_of (ApplySchedulingDeltas_body env d n s) = Some (n + 1)
    \<and> State (jobs (state_of (ApplySchedulingDeltas_body env d n s)) jd) = Running
    \<and> (State (jobs s jd) = Running \<longrightarrow> state_of (ApplySchedulingDeltas_body env d n s) = s)"
  using assms
  unfolding ApplySchedulingDeltas_body_def resource_resolves_def owning_job_def has_record_def
    HandleTaskPlacement_def
  by (auto split: ptr.splits option.splits)

lemma owning_job_jobs: "owning_job env (s\<lparr>jobs := J\<rparr>) d = owning_job env s d"
  by (simp add: owning_job_def cong: option.case_cong ptr.case_cong)

text \<open>A job that is \<open>Running\<close> stays so under every delta.\<close>

lemma body_keeps_Running:
  "State (jobs s a) = Running \<Longrightarrow>
     State (jobs (state_of (ApplySchedulingDeltas_body env d n s)) a) = Running"
  unfolding ApplySchedulingDeltas_body_def HandleTaskPlacement_def HandleTaskEviction_def
    HandleTaskMigration_def
  by (auto split: ptr.splits option.splits ChangeType.splits)

lemma loop_keeps_Running:
  "State (jobs s a) = Running \<Longrightarrow>
     State (jobs (state_of (ApplySchedulingDeltas_loop env ds n s)) a) = Running"
proof (induction ds arbitrary: n s)
  case Nil
  then show ?case by simp
next
  case (Cons d ds)
  from body_keeps_Running [OF Cons.prems, of env d n] Cons.IH show ?case
    by (cases "ApplySchedulingDeltas_body env d n s") auto
qed

text \<open>
  When the application of a list returns, the owning job of each of its \<open>PLACE\<close> deltas
  is \<open>Running\<close> in the state it leaves.
\<close>

lemma loop_activates:
  "d \<in> set ds \<Longrightarrow> Type d = PLACE \<Longrightarrow> owning_job env s d = Some jd \<Longrightarrow>
     fault_of (ApplySchedulingDeltas_loop env ds n s) = None \<Longrightarrow>
     State (jobs (state_of (ApplySchedulingDeltas_loop env ds n s)) jd) = Running"
proof (induction ds arbitrary: n s)
  case Nil
  then show ?case by simp
next
  case (Cons x xs)
  obtain J where J: "state_of (ApplySchedulingDeltas_body env x n s) = s\<lparr>jobs := J\<rparr>"
    using body_state by blast
  from Cons.prems(4) obtain n1 s1 where b: "ApplySchedulingDeltas_body env x n s = Returned n1 s1"
    and rest: "fault_of (ApplySchedulingDeltas_loop env xs n1 s1) = None"
    by (cases "ApplySchedulingDeltas_body env x n s") auto
  from b J have s1: "s1 = s\<lparr>jobs := J\<rparr>" by simp
  show ?case
  proof (cases "x = d")
    case True
    from b have "applicable env s x"
      using body_returns_iff [of env x n s] by simp
    then have "resource_resolves env s d"
      using True by (simp add: applicable_def)
    from body_PLACE [OF Cons.prems(2) this Cons.prems(3), of n] b True
    have "State (jobs s1 jd) = Running" by simp
    from loop_keeps_Running [OF this, of env xs n1] b show ?thesis by simp
  next
    case False
    with Cons.prems(1) have "d \<in> set xs" by simp
    moreover have "owning_job env s1 d = Some jd"
      using Cons.prems(3) s1 by (simp add: owning_job_jobs)
    ultimately have "State (jobs (state_of (ApplySchedulingDeltas_loop env xs n1 s1)) jd) = Running"
      using Cons.IH Cons.prems(2) rest by blast
    with b show ?thesis by simp
  qed
qed

text \<open>
  When the owning job of every \<open>PLACE\<close> delta of a list is \<open>Running\<close> already, the
  application of the list leaves the state as it was.
\<close>

lemma body_no_transition:
  "(Type d = PLACE \<longrightarrow> (\<forall>j. owning_job env s d = Some j \<longrightarrow> State (jobs s j) = Running)) \<Longrightarrow>
     state_of (ApplySchedulingDeltas_body env d n s) = s"
  unfolding ApplySchedulingDeltas_body_def owning_job_def HandleTaskPlacement_def
    HandleTaskEviction_def HandleTaskMigration_def
  by (auto split: ptr.splits option.splits ChangeType.splits)

lemma loop_no_transition:
  "(\<forall>d\<in>set ds. Type d = PLACE \<longrightarrow>
       (\<forall>j. owning_job env s d = Some j \<longrightarrow> State (jobs s j) = Running)) \<Longrightarrow>
     state_of (ApplySchedulingDeltas_loop env ds n s) = s"
proof (induction ds arbitrary: n)
  case Nil
  then show ?case by simp
next
  case (Cons d ds)
  from Cons.prems have "state_of (ApplySchedulingDeltas_body env d n s) = s"
    by (intro body_no_transition) simp
  moreover from Cons.prems Cons.IH
  have "\<And>m. state_of (ApplySchedulingDeltas_loop env ds m s) = s" by simp
  ultimately show ?case
    by (cases "ApplySchedulingDeltas_body env d n s") auto
qed

text \<open>
  C6. For a \<open>PLACE\<close> delta whose resource resolves and whose task's owning job \<open>jd\<close> is on
  record: the step that applies it returns with the count incremented and the job
  \<open>Running\<close>, and when the job is \<open>Running\<close> already, the state after the step is the
  state before it. So it is for \<^verbatim>\<open>ApplySchedulingDeltas\<close> as a whole: applied alone, the
  delta leaves the job \<open>Running\<close> and, if it was so, the state untouched; whenever the
  application of a list holding the delta returns, the job is \<open>Running\<close> in the state it
  leaves; and a list all of whose placements belong to jobs that are \<open>Running\<close> already
  leaves the state untouched.
\<close>

theorem PLACE_activates_job:
  assumes "Type d = PLACE" and "resource_resolves env s d" and "owning_job env s d = Some jd"
  shows "value_of (ApplySchedulingDeltas_body env d n s) = Some (n + 1)
    \<and> State (jobs (state_of (ApplySchedulingDeltas_body env d n s)) jd) = Running
    \<and> (State (jobs s jd) = Running \<longrightarrow> state_of (ApplySchedulingDeltas_body env d n s) = s)
    \<and> value_of (ApplySchedulingDeltas env [d] s) = Some 1
    \<and> State (jobs (state_of (ApplySchedulingDeltas env [d] s)) jd) = Running
    \<and> (State (jobs s jd) = Running \<longrightarrow> state_of (ApplySchedulingDeltas env [d] s) = s)
    \<and> (\<forall>ds. d \<in> set ds \<and> fault_of (ApplySchedulingDeltas env ds s) = None \<longrightarrow>
          State (jobs (state_of (ApplySchedulingDeltas env ds s)) jd) = Running)
    \<and> (\<forall>ds. (\<forall>d'\<in>set ds. Type d' = PLACE \<longrightarrow>
                (\<forall>j. owning_job env s d' = Some j \<longrightarrow> State (jobs s j) = Running)) \<longrightarrow>
          state_of (ApplySchedulingDeltas env ds s) = s)"
proof -
  note step = body_PLACE [OF assms, of 0]
  have single: "ApplySchedulingDeltas env [d] s = ApplySchedulingDeltas_body env d 0 s"
    using step
    by (cases "ApplySchedulingDeltas_body env d 0 s") (simp_all add: ApplySchedulingDeltas_def)
  have lists: "\<forall>ds. d \<in> set ds \<and> fault_of (ApplySchedulingDeltas env ds s) = None \<longrightarrow>
          State (jobs (state_of (ApplySchedulingDeltas env ds s)) jd) = Running"
    using loop_activates [OF _ assms(1) assms(3)] by (simp add: ApplySchedulingDeltas_def)
  have idle: "\<forall>ds. (\<forall>d'\<in>set ds. Type d' = PLACE \<longrightarrow>
                (\<forall>j. owning_job env s d' = Some j \<longrightarrow> State (jobs s j) = Running)) \<longrightarrow>
          state_of (ApplySchedulingDeltas env ds s) = s"
    using loop_no_transition by (simp add: ApplySchedulingDeltas_def)
  from body_PLACE [OF assms, of n] step lists idle show ?thesis
    unfolding single by simp
qed

text \<open>
  Applying the placements of T1 and T2 to the cluster turns the pending J1 into
  \<open>Running\<close>, after T1 alone and after both; applying them once more leaves the state as
  it is.
\<close>

theorem PLACE_activates_job_witness:
  "State (jobs cluster 1) = Pending
   \<and> State (jobs (state_of (ApplySchedulingDeltas_body round1
        \<lparr>Type = PLACE, TaskId = 1, ResourceId = ''11''\<rparr> 0 cluster)) 1) = Running
   \<and> value_of (ApplySchedulingDeltas round1
        [\<lparr>Type = PLACE, TaskId = 1, ResourceId = ''11''\<rparr>] cluster) = Some 1
   \<and> State (jobs (state_of (ApplySchedulingDeltas round1
        [\<lparr>Type = PLACE, TaskId = 1, ResourceId = ''11''\<rparr>] cluster)) 1) = Running
   \<and> fault_of (ApplySchedulingDeltas round1
        [\<lparr>Type = PLACE, TaskId = 1, ResourceId = ''11''\<rparr>,
         \<lparr>Type = PLACE, TaskId = 2, ResourceId = ''12''\<rparr>] cluster) = None
   \<and> State (jobs (state_of (ApplySchedulingDeltas round1
        [\<lparr>Type = PLACE, TaskId = 1, ResourceId = ''11''\<rparr>,
         \<lparr>Type = PLACE, TaskId = 2, ResourceId = ''12''\<rparr>] cluster)) 1) = Running
   \<and> state_of (ApplySchedulingDeltas round1
        [\<lparr>Type = PLACE, TaskId = 1, ResourceId = ''11''\<rparr>,
         \<lparr>Type = PLACE, TaskId = 2, ResourceId = ''12''\<rparr>]
        (state_of (ApplySchedulingDeltas round1
           [\<lparr>Type = PLACE, TaskId = 1, ResourceId = ''11''\<rparr>] cluster)))
     = state_of (ApplySchedulingDeltas round1
           [\<lparr>Type = PLACE, TaskId = 1, ResourceId = ''11''\<rparr>] cluster)"
proof -
  let ?d1 = "\<lparr>Type = PLACE, TaskId = 1, ResourceId = ''11''\<rparr>"
  let ?d2 = "\<lparr>Type = PLACE, TaskId = 2, ResourceId = ''12''\<rparr>"
  let ?s1 = "state_of (ApplySchedulingDeltas round1 [?d1] cluster)"
  have t1: "Type ?d1 = PLACE" by simp
  have r1: "resource_resolves round1 cluster ?d1" and j1: "owning_job round1 cluster ?d1 = Some 1"
    by (simp_all add: scenario_defs operation_defs)
  have r2: "resource_resolves round1 ?s1 ?d1" and j2: "owning_job round1 ?s1 ?d1 = Some 1"
    by (simp_all add: scenario_defs operation_defs)
  have p: "State (jobs cluster 1) = Pending" by (simp add: scenario_defs)
  have ok: "fault_of (ApplySchedulingDeltas round1 [?d1, ?d2] cluster) = None"
    by (simp add: scenario_defs operation_defs)
  have mem: "?d1 \<in> set [?d1, ?d2]" by simp
  have run: "\<forall>d'\<in>set [?d1, ?d2]. Type d' = PLACE \<longrightarrow>
      (\<forall>j. owning_job round1 ?s1 d' = Some j \<longrightarrow> State (jobs ?s1 j) = Running)"
    by (simp add: scenario_defs operation_defs)
  note a = PLACE_activates_job [OF t1 r1 j1, of 0]
  note b = PLACE_activates_job [OF t1 r2 j2, of 0]
  from a have a1: "State (jobs (state_of (ApplySchedulingDeltas_body round1 ?d1 0 cluster)) 1) = Running"
    and a2: "value_of (ApplySchedulingDeltas round1 [?d1] cluster) = Some 1"
    and a3: "State (jobs ?s1 1) = Running"
    and a4: "State (jobs (state_of (ApplySchedulingDeltas round1 [?d1, ?d2] cluster)) 1) = Running"
    using mem ok by blast+
  from b run have b1: "state_of (ApplySchedulingDeltas round1 [?d1, ?d2] ?s1) = ?s1"
    by blast
  from p a1 a2 a3 a4 ok b1 show ?thesis by simp
qed

end
